theory Spec2Isabelle
  imports Complex_Main
begin

section \<open>Tensors\<close>

text \<open>
  A tensor is its shape together with its elements in row-major order. Elements are
  real numbers: rounding, infinities and NaN of the double-precision tensors of the
  program are outside this model. Conversions of dtype and device (\<open>.to(...)\<close>) and
  \<open>.detach()\<close> do not change shape or elements and are the identity here.
\<close>

datatype tensor = Tensor (shape: "nat list") (data: "real list")

text \<open>A tensor of the program has as many elements as its shape says.\<close>

definition wf_tensor :: "tensor \<Rightarrow> bool" where
  "wf_tensor t = (length (data t) = prod_list (shape t))"

subsection \<open>Exceptions\<close>

text \<open>
  Every exception is a value: its class and its message. \<open>HysteresisError\<close> is the
  class declared in \<open>base.py\<close>; the others are Python's. \<open>CollaboratorError\<close> stands
  for a call of the state function (\<open>states.py\<close>) that rejects its arguments. A message
  that goes on with advice or with formatted values is held by its fixed first part.
\<close>

datatype error =
    HysteresisError string
  | RuntimeError string
  | ValueError string
  | AttributeError string
  | IndexError string
  | TypeError string
  | CollaboratorError string

definition msg_must_specify_field :: string where
  "msg_must_specify_field = ''must specify field when not using CURRENT mode''"

definition msg_no_training_data :: string where
  "msg_no_training_data = ''no training.py data supplied to do fitting!''"

definition msg_history_shape :: string where
  "msg_history_shape = ''history datasets must match shape for fitting''"

definition msg_not_history_fields :: string where
  "msg_not_history_fields = ''must do regression on history fields if in FITTING mode''"

definition msg_no_history_data :: string where
  "msg_no_history_data = ''no history data to determine current state!''"

definition msg_future_1d :: string where
  "msg_future_1d = ''input must be 1D for FUTURE mode''"

definition msg_mode_not_accepted :: string where
  "msg_mode_not_accepted = ''mode not accepted''"

definition msg_outside_domain :: string where
  "msg_outside_domain = ''Argument values are not inside valid domain''"

definition msg_history_h_1d :: string where
  "msg_history_h_1d = ''history_h must be a 1D tensor''"

definition msg_history_m_1d :: string where
  "msg_history_m_1d = ''history_m must be a 1D tensor''"

definition msg_h_equals_m :: string where
  "msg_h_equals_m = ''train h and train m cannot be equal''"

text \<open>
  The taxonomy of the specification, read off the raise sites of \<open>base.py\<close>: a domain
  error is the one raised by \<open>_check_inside_valid_domain\<close>; a mode-consistency error is
  raised by \<open>forward\<close> when the precondition of the mode is not met; a configuration
  error is raised by the validation at the head of \<open>set_history\<close>.
\<close>

definition is_domain_error :: "error \<Rightarrow> bool" where
  "is_domain_error e = (e = HysteresisError msg_outside_domain)"

definition is_mode_consistency_error :: "error \<Rightarrow> bool" where
  "is_mode_consistency_error e =
     (e = HysteresisError msg_must_specify_field \<or>
      e = RuntimeError msg_no_training_data \<or>
      e = HysteresisError msg_history_shape \<or>
      e = HysteresisError msg_not_history_fields \<or>
      e = HysteresisError msg_no_history_data)"

definition is_configuration_error :: "error \<Rightarrow> bool" where
  "is_configuration_error e =
     (e = ValueError msg_history_h_1d \<or>
      e = ValueError msg_history_m_1d \<or>
      e = RuntimeError msg_h_equals_m)"

subsection \<open>The operations of the tensor library that \<open>base.py\<close> calls\<close>

text \<open>\<open>torch.atleast_1d\<close>: a 0-dimensional tensor becomes a tensor of shape \<open>(1,)\<close>.\<close>

definition atleast_1d :: "tensor \<Rightarrow> tensor" where
  "atleast_1d t = (if shape t = [] then Tensor [1] (data t) else t)"

text \<open>\<open>t[-1]\<close>: the last slice along dimension 0; IndexError when there is none.\<close>

definition index_last :: "tensor \<Rightarrow> error + tensor" where
  "index_last t =
     (case shape t of
        [] \<Rightarrow> Inl (IndexError ''invalid index of a 0-dim tensor'')
      | n # rest \<Rightarrow>
          if n = 0 then Inl (IndexError ''index -1 is out of bounds for dimension 0 with size 0'')
          else Inr (Tensor rest (drop ((n - 1) * prod_list rest) (data t))))"

definition unsqueeze0 :: "tensor \<Rightarrow> tensor" where
  "unsqueeze0 t = Tensor (1 # shape t) (data t)"

text \<open>\<open>torch.equal\<close>: same size and same elements.\<close>

definition torch_equal :: "tensor \<Rightarrow> tensor \<Rightarrow> bool" where
  "torch_equal a b = (shape a = shape b \<and> data a = data b)"

text \<open>
  \<open>torch.cat\<close> of two tensors along dimension 0. A 1-dimensional empty tensor is
  skipped, whatever the shape of the other one.
\<close>

definition cat :: "tensor \<Rightarrow> tensor \<Rightarrow> error + tensor" where
  "cat a b =
     (if shape a = [] \<or> shape b = []
      then Inl (RuntimeError ''zero-dimensional tensor cannot be concatenated'')
      else if shape a = [0] then Inr b
      else if shape b = [0] then Inr a
      else if tl (shape a) = tl (shape b)
      then Inr (Tensor ((hd (shape a) + hd (shape b)) # tl (shape a)) (data a @ data b))
      else Inl (RuntimeError ''Sizes of tensors must match except in dimension 0''))"

text \<open>
  Broadcasting. Shapes are aligned at their last dimension; two dimensions are
  compatible when they are equal or one of them is 1.
\<close>

fun broadcast_rev :: "nat list \<Rightarrow> nat list \<Rightarrow> nat list option" where
  "broadcast_rev [] ys = Some ys"
| "broadcast_rev xs [] = Some xs"
| "broadcast_rev (x # xs) (y # ys) =
     (case broadcast_rev xs ys of
        None \<Rightarrow> None
      | Some r \<Rightarrow>
          if x = y then Some (x # r)
          else if x = 1 then Some (y # r)
          else if y = 1 then Some (x # r)
          else None)"

definition broadcast_shapes :: "nat list \<Rightarrow> nat list \<Rightarrow> nat list option" where
  "broadcast_shapes a b = map_option rev (broadcast_rev (rev a) (rev b))"

text \<open>
  \<open>expand src tgt xs\<close>: the elements of a tensor of shape \<open>src\<close> (same rank as \<open>tgt\<close>)
  repeated along every dimension where \<open>src\<close> is 1, giving the elements of shape \<open>tgt\<close>.
\<close>

fun expand :: "nat list \<Rightarrow> nat list \<Rightarrow> real list \<Rightarrow> real list" where
  "expand (a # as) (b # bs) xs =
     concat (map (\<lambda>i. expand as bs
                    (take (prod_list as) (drop ((if a = 1 then 0 else i) * prod_list as) xs)))
                 [0..<b])"
| "expand _ _ xs = xs"

definition expand_to :: "nat list \<Rightarrow> tensor \<Rightarrow> real list" where
  "expand_to tgt t =
     expand (replicate (length tgt - length (shape t)) 1 @ shape t) tgt (data t)"

definition broadcast_op ::
  "(real \<Rightarrow> real \<Rightarrow> real) \<Rightarrow> tensor \<Rightarrow> tensor \<Rightarrow> error + tensor" where
  "broadcast_op f a b =
     (case broadcast_shapes (shape a) (shape b) of
        None \<Rightarrow> Inl (RuntimeError ''The size of tensor a must match the size of tensor b'')
      | Some sh \<Rightarrow> Inr (Tensor sh (map2 f (expand_to sh a) (expand_to sh b))))"

text \<open>
  \<open>torch.allclose(a, b)\<close> with its default tolerances: every pair of broadcast
  elements satisfies \<open>|a - b| \<le> atol + rtol * |b|\<close>, \<open>rtol = 1e-5\<close>, \<open>atol = 1e-8\<close>.
\<close>

definition allclose :: "tensor \<Rightarrow> tensor \<Rightarrow> error + bool" where
  "allclose a b =
     (case broadcast_shapes (shape a) (shape b) of
        None \<Rightarrow> Inl (RuntimeError ''The size of tensor a must match the size of tensor b'')
      | Some sh \<Rightarrow>
          Inr (list_all (\<lambda>(x, y). \<bar>x - y\<bar> \<le> 1 / 100000000 + 1 / 100000 * \<bar>y\<bar>)
                 (zip (expand_to sh a) (expand_to sh b))))"

text \<open>\<open>torch.sum(t, dim=-1)\<close>: the sums of the rows of the last dimension.\<close>

definition sum_last :: "tensor \<Rightarrow> tensor" where
  "sum_last t =
     (case shape t of
        [] \<Rightarrow> t
      | _ \<Rightarrow> Tensor (butlast (shape t))
               (map (\<lambda>i. sum_list (take (last (shape t)) (drop (i * last (shape t)) (data t))))
                    [0..<prod_list (butlast (shape t))]))"

text \<open>\<open>t.reshape(sh)\<close>: the same elements under another shape of the same size.\<close>

definition reshape :: "tensor \<Rightarrow> nat list \<Rightarrow> error + tensor" where
  "reshape t sh =
     (if prod_list sh = length (data t) then Inr (Tensor sh (data t))
      else Inl (RuntimeError ''shape is invalid for input size''))"

section \<open>The collaborators of the hysteresis model\<close>

datatype mode = FITTING | REGRESSION | NEXT | FUTURE | CURRENT

text \<open>
  Modelled from the spec: the class \<open>HysteresisTransform\<close> (\<open>transform.py\<close>) is not part
  of the sources. Its interface is \<open>transform(h, m?) -> (normalized_h, normalized_m_or_none)\<close>,
  \<open>untransform(h, m?) -> (real_h, real_m_or_none)\<close> and \<open>domain -> (min, max)\<close>: the
  second component of a result is \<open>None\<close> exactly when no \<open>m\<close> is passed. The four
  functions are parameters, and they are taken to return.
\<close>

record transformer =
  transform_h :: "tensor \<Rightarrow> tensor"
  transform_m :: "tensor \<Rightarrow> tensor \<Rightarrow> tensor"
  untransform_h :: "tensor \<Rightarrow> tensor"
  untransform_m :: "tensor \<Rightarrow> tensor \<Rightarrow> tensor"
  domain :: "real \<times> real"

definition transform :: "transformer \<Rightarrow> tensor \<Rightarrow> tensor option \<Rightarrow> tensor \<times> tensor option" where
  "transform tr h m = (transform_h tr h, map_option (transform_m tr h) m)"

definition untransform :: "transformer \<Rightarrow> tensor \<Rightarrow> tensor option \<Rightarrow> tensor \<times> tensor option" where
  "untransform tr h m = (untransform_h tr h, map_option (untransform_m tr h) m)"

text \<open>
  The functions of the repository that \<open>base.py\<close> imports and the sources do not
  contain are parameters as well: the constructor of the transform (with the
  instance's fixed domain, polynomial degree and number of fit iterations), and the two
  state functions of \<open>states.py\<close>, called with the field values, the mesh, the current
  state, the current field and the temperature. A state function that rejects its
  arguments returns \<open>None\<close>.
\<close>

record collaborators =
  HysteresisTransform :: "tensor \<Rightarrow> tensor option \<Rightarrow> transformer"
  get_states ::
    "tensor \<Rightarrow> (real \<times> real) list \<Rightarrow> tensor option \<Rightarrow> tensor option \<Rightarrow> real \<Rightarrow> tensor option"
  predict_batched_state ::
    "tensor \<Rightarrow> (real \<times> real) list \<Rightarrow> tensor option \<Rightarrow> tensor option \<Rightarrow> real \<Rightarrow> tensor option"

section \<open>The hysteresis model (\<open>BaseHysteresis\<close>)\<close>

text \<open>
  The attributes of an instance that the operations read or write. The three buffers
  \<open>_history_h\<close>, \<open>_history_m\<close> and \<open>_states\<close> exist or not (\<open>hasattr\<close>, \<open>del\<close>), hence
  the options. The parameters are held by their constrained values, the ones the
  properties \<open>hysterion_density\<close>, \<open>offset\<close>, \<open>scale\<close> and \<open>slope\<close> return; the last
  three are tensors of shape \<open>(1,)\<close>, held by their element.

  Modelled from the spec: the class \<open>ModeModule\<close> (\<open>modes.py\<close>) is not part of the
  sources. The mode is one of the five values of the enumeration, the property \<open>mode\<close>
  reads and writes the one field \<open>_mode\<close>, and \<open>regression()\<close> assigns \<open>REGRESSION\<close>.
\<close>

record model =
  transformer :: transformer
  trainable :: bool
  fixed_scaling :: bool
  mesh_points :: "(real \<times> real) list"
  temp :: real
  hysterion_density :: "real list"
  offset :: real
  scale :: real
  slope :: real
  mode :: mode
  history_h_buf :: "tensor option"
  history_m_buf :: "tensor option"
  states_buf :: "tensor option"

definition valid_domain :: "model \<Rightarrow> real \<times> real" where
  "valid_domain s = domain (transformer s)"

text \<open>The property \<open>history_h\<close>: the stored fields, untransformed.\<close>

definition history_h_property :: "model \<Rightarrow> tensor option" where
  "history_h_property s = map_option (\<lambda>hh. fst (untransform (transformer s) hh None)) (history_h_buf s)"

text \<open>
  \<open>_check_inside_valid_domain\<close>. The two comparisons are made on real numbers, with
  the tolerance \<open>1e-4\<close> as the real \<open>1/10000\<close>. The program makes them in the floating
  dtype of the tensor it is given (\<open>forward\<close> converts its input to double before the
  check, \<open>apply_field\<close> does not convert), with the tolerance and the two bounds
  rounded in that dtype. What the check decides for a value within rounding distance of
  a bound is therefore not settled by this definition; the properties below use the check
  through its outcome only.
\<close>

definition check_inside_valid_domain :: "model \<Rightarrow> tensor \<Rightarrow> error + unit" where
  "check_inside_valid_domain s values =
     (let machine_error = 1 / 10000 in
      if list_ex (\<lambda>v. v < fst (valid_domain s) - machine_error) (data values) \<or>
         list_ex (\<lambda>v. v > snd (valid_domain s) + machine_error) (data values)
      then Inl (HysteresisError msg_outside_domain)
      else Inr ())"

text \<open>
  \<open>_predict_normalized_magnetization\<close>: the density, a tensor of shape \<open>(|mesh|,)\<close>,
  is multiplied with the states by broadcasting, summed over the last dimension and
  divided by the total density; the result takes the shape of \<open>h\<close> and is combined with
  the parameters of shape \<open>(1,)\<close>, again by broadcasting.
\<close>

definition predict_normalized_magnetization :: "model \<Rightarrow> tensor \<Rightarrow> tensor \<Rightarrow> error + tensor" where
  "predict_normalized_magnetization s states h =
     (let density = Tensor [length (hysterion_density s)] (hysterion_density s) in
      case broadcast_op (*) density states of
        Inl e \<Rightarrow> Inl e
      | Inr weighted \<Rightarrow>
          (let m = Tensor (shape (sum_last weighted))
                     (map (\<lambda>v. v / sum_list (hysterion_density s)) (data (sum_last weighted)))
           in case reshape m (shape h) of
                Inl e \<Rightarrow> Inl e
              | Inr m' \<Rightarrow>
                  Inr (Tensor (if shape h = [] then [1] else shape h)
                         (map2 (\<lambda>mi hi. scale s * mi + offset s + hi * slope s) (data m') (data h)))))"

text \<open>
  \<open>forward\<close>, lines 250 to 256: the current field and the current state, when the
  property \<open>history_h\<close> can be read, that is when the buffer \<open>_history_h\<close> exists.
\<close>

definition current_state_field :: "model \<Rightarrow> error + (tensor option \<times> tensor option)" where
  "current_state_field s =
     (case history_h_buf s of
        None \<Rightarrow> Inr (None, None)
      | Some hh \<Rightarrow>
          (case index_last hh of
             Inl e \<Rightarrow> Inl e
           | Inr current_fld \<Rightarrow>
               (case states_buf s of
                  None \<Rightarrow> Inl (AttributeError ''_states'')
                | Some st \<Rightarrow>
                    (case index_last st of
                       Inl e \<Rightarrow> Inl e
                     | Inr current_state \<Rightarrow> Inr (Some current_state, Some current_fld)))))"

text \<open>
  \<open>forward\<close>, lines 258 to 321: the states and the normalized fields of the mode.
  In every branch but \<open>CURRENT\<close> the input is a tensor, since a missing input has been
  refused before; the tensor library refuses \<open>None\<close> with a TypeError.
\<close>

definition mode_states ::
  "collaborators \<Rightarrow> model \<Rightarrow> tensor option \<Rightarrow> tensor option \<Rightarrow> tensor option
     \<Rightarrow> error + (tensor \<times> tensor)" where
  "mode_states env s x current_state current_fld =
     (if mode s = FITTING then
        (case history_h_buf s of
           None \<Rightarrow> Inl (RuntimeError msg_no_training_data)
         | Some hh \<Rightarrow>
             (case history_m_buf s of
                None \<Rightarrow> Inl (AttributeError ''_history_m'')
              | Some hm \<Rightarrow>
                  if shape hh \<noteq> shape hm then Inl (HysteresisError msg_history_shape)
                  else
                    (case x of
                       None \<Rightarrow> Inl (TypeError ''allclose(): argument input must be Tensor'')
                     | Some xt \<Rightarrow>
                         (case allclose xt (fst (untransform (transformer s) hh None)) of
                            Inl e \<Rightarrow> Inl e
                          | Inr close \<Rightarrow>
                              if \<not> close then Inl (HysteresisError msg_not_history_fields)
                              else
                                (case states_buf s of
                                   None \<Rightarrow> Inl (AttributeError ''_states'')
                                 | Some st \<Rightarrow> Inr (st, hh))))))
      else if mode s = REGRESSION then
        (case x of
           None \<Rightarrow> Inl (TypeError ''transform(): argument must be Tensor'')
         | Some xt \<Rightarrow>
             (let norm_h = fst (transform (transformer s) xt None) in
              case get_states env norm_h (mesh_points s) None None (temp s) of
                None \<Rightarrow> Inl (CollaboratorError ''get_states'')
              | Some states \<Rightarrow> Inr (states, norm_h)))
      else if mode s = CURRENT then
        (case history_h_buf s of
           None \<Rightarrow> Inl (HysteresisError msg_no_history_data)
         | Some _ \<Rightarrow>
             (case (current_state, current_fld) of
                (Some cs, Some cf) \<Rightarrow> Inr (unsqueeze0 cs, unsqueeze0 cf)
              | _ \<Rightarrow> Inl (AttributeError ''unsqueeze'')))
      else if mode s = FUTURE then
        (case x of
           None \<Rightarrow> Inl (AttributeError ''shape'')
         | Some xt \<Rightarrow>
             if length (shape xt) \<noteq> 1 then Inl (ValueError msg_future_1d)
             else
               (let norm_h = fst (transform (transformer s) xt None) in
                case get_states env norm_h (mesh_points s) current_state current_fld (temp s) of
                  None \<Rightarrow> Inl (CollaboratorError ''get_states'')
                | Some states \<Rightarrow> Inr (states, norm_h)))
      else if mode s = NEXT then
        (case x of
           None \<Rightarrow> Inl (TypeError ''transform(): argument must be Tensor'')
         | Some xt \<Rightarrow>
             (let norm_h = fst (transform (transformer s) xt None) in
              case predict_batched_state env norm_h (mesh_points s) current_state current_fld (temp s) of
                None \<Rightarrow> Inl (CollaboratorError ''predict_batched_state'')
              | Some states \<Rightarrow> Inr (states, norm_h)))
      else Inl (ValueError msg_mode_not_accepted))"

text \<open>
  \<open>forward\<close>. It reads the instance and assigns nothing, so it returns a result and
  no state.
\<close>

definition forward :: "collaborators \<Rightarrow> model \<Rightarrow> tensor option \<Rightarrow> bool \<Rightarrow> error + tensor" where
  "forward env s x return_real =
     (case (case x of
              Some xt \<Rightarrow> check_inside_valid_domain s xt
            | None \<Rightarrow>
                if mode s \<noteq> CURRENT then Inl (HysteresisError msg_must_specify_field)
                else Inr ()) of
        Inl e \<Rightarrow> Inl e
      | Inr _ \<Rightarrow>
          (case current_state_field s of
             Inl e \<Rightarrow> Inl e
           | Inr (current_state, current_fld) \<Rightarrow>
               (case mode_states env s x current_state current_fld of
                  Inl e \<Rightarrow> Inl e
                | Inr (states, norm_h) \<Rightarrow>
                    (case predict_normalized_magnetization s states norm_h of
                       Inl e \<Rightarrow> Inl e
                     | Inr m \<Rightarrow>
                         if return_real
                         then (case snd (untransform (transformer s) norm_h (Some m)) of
                                 None \<Rightarrow> Inl (TypeError ''NoneType'')
                               | Some r \<Rightarrow> Inr r)
                         else Inr m))))"

text \<open>
  \<open>_update_h_history_buffer\<close>. A state-changing operation returns the exception it
  raised, if any, and the state of the instance when it ended: what has been assigned
  before a raise stays assigned.
\<close>

definition update_h_history_buffer ::
  "collaborators \<Rightarrow> model \<Rightarrow> tensor \<Rightarrow> error option \<times> model" where
  "update_h_history_buffer env s norm_history_h =
     (let s1 = s\<lparr>history_h_buf := Some norm_history_h\<rparr> in
      case get_states env norm_history_h (mesh_points s1) None None (temp s1) of
        None \<Rightarrow> (Some (CollaboratorError ''get_states''), s1)
      | Some states \<Rightarrow> (None, s1\<lparr>states_buf := Some states\<rparr>))"

text \<open>
  \<open>set_history\<close>. \<open>history_h\<close> is a tensor and \<open>history_m\<close> a tensor or \<open>None\<close>. The
  second dimension check is the one of line 193: it reads the shape of \<open>history_h\<close>.
\<close>

definition set_history ::
  "collaborators \<Rightarrow> model \<Rightarrow> tensor \<Rightarrow> tensor option \<Rightarrow> error option \<times> model" where
  "set_history env s history_h history_m =
     (let s1 = (if trainable s \<and> \<not> fixed_scaling s
                then s\<lparr>transformer := HysteresisTransform env history_h history_m\<rparr>
                else s)
      in
      if length (shape history_h) \<noteq> 1 then (Some (ValueError msg_history_h_1d), s1)
      else if history_m \<noteq> None \<and> length (shape history_h) \<noteq> 1
      then (Some (ValueError msg_history_m_1d), s1)
      else if history_m \<noteq> None \<and> torch_equal history_h (the history_m)
      then (Some (RuntimeError msg_h_equals_m), s1)
      else
        (case transform (transformer s1) history_h history_m of
           (norm_h, norm_m) \<Rightarrow>
             (case update_h_history_buffer env s1 norm_h of
                (Some e, s2) \<Rightarrow> (Some e, s2)
              | (None, s2) \<Rightarrow>
                  (case norm_m of
                     Some m \<Rightarrow> (None, s2\<lparr>history_m_buf := Some m\<rparr>)
                   | None \<Rightarrow>
                       (let old_mode = mode s2;
                            s3 = s2\<lparr>mode := REGRESSION\<rparr>
                        in case forward env s3 (Some history_h) False of
                             Inl e \<Rightarrow> (Some e, s3)
                           | Inr m \<Rightarrow> (None, s3\<lparr>mode := old_mode, history_m_buf := Some m\<rparr>))))))"

text \<open>\<open>apply_field\<close>. The test of line 222 is on the buffer \<open>_history_h\<close> itself.\<close>

definition apply_field :: "collaborators \<Rightarrow> model \<Rightarrow> tensor \<Rightarrow> error option \<times> model" where
  "apply_field env s h0 =
     (let h = atleast_1d h0 in
      case check_inside_valid_domain s h of
        Inl e \<Rightarrow> (Some e, s)
      | Inr _ \<Rightarrow>
          (case history_h_buf s of
             Some hh \<Rightarrow>
               (case cat hh (fst (transform (transformer s) h None)) of
                  Inl e \<Rightarrow> (Some e, s)
                | Inr norm_h \<Rightarrow> update_h_history_buffer env s norm_h)
           | None \<Rightarrow> update_h_history_buffer env s (fst (transform (transformer s) h None))))"

text \<open>\<open>reset_history\<close>: two \<open>del\<close> statements, each an AttributeError on a missing buffer.\<close>

definition reset_history :: "model \<Rightarrow> error option \<times> model" where
  "reset_history s =
     (case history_h_buf s of
        None \<Rightarrow> (Some (AttributeError ''_history_h''), s)
      | Some _ \<Rightarrow>
          (let s1 = s\<lparr>history_h_buf := None\<rparr> in
           case history_m_buf s1 of
             None \<Rightarrow> (Some (AttributeError ''_history_m''), s1)
           | Some _ \<Rightarrow> (None, s1\<lparr>history_m_buf := None\<rparr>)))"

section \<open>The state functions, from the specification\<close>

text \<open>
  Modelled from the spec: \<open>get_states\<close> (\<open>states.py\<close>) is not part of the sources.
  By section 4.1 of the specification it replays the field values in order over a bank
  of hysterons, one per mesh point; each hysteron's state is updated from its previous
  state, the previous field and the new field; the replay starts from saturation, or
  from the current state and field when they are supplied; a history that is not
  1-dimensional is rejected before computation; the result is a matrix with one row per
  field value and one column per mesh point. The differentiable update of one hysteron
  (\<open>relay temp previous_field new_field (\<alpha>, \<beta>) old_state\<close>) and the saturation start
  (state and field) are parameters. A current state that has not one value per mesh
  point, or a current field that is not a single value, is rejected as malformed.
\<close>

fun replay ::
  "(real \<Rightarrow> real \<Rightarrow> real \<times> real \<Rightarrow> real \<Rightarrow> real) \<Rightarrow> (real \<times> real) list \<Rightarrow> real list \<Rightarrow> real
     \<Rightarrow> real list \<Rightarrow> real list list" where
  "replay step mesh st fld [] = []"
| "replay step mesh st fld (h # hs) =
     (let st' = map2 (step fld h) mesh st in st' # replay step mesh st' h hs)"

definition get_states_spec ::
  "(real \<Rightarrow> real \<Rightarrow> real \<Rightarrow> real \<times> real \<Rightarrow> real \<Rightarrow> real) \<Rightarrow> real \<times> real
     \<Rightarrow> tensor \<Rightarrow> (real \<times> real) list \<Rightarrow> tensor option \<Rightarrow> tensor option \<Rightarrow> real \<Rightarrow> tensor option" where
  "get_states_spec relay sat h mesh current_state current_field tmp =
     (if length (shape h) \<noteq> 1 then None
      else
        (case (current_state, current_field) of
           (Some cs, Some cf) \<Rightarrow>
             if length (data cs) = length mesh \<and> length (data cf) = 1
             then Some (Tensor [length (data h), length mesh]
                          (concat (replay (relay tmp) mesh (data cs) (hd (data cf)) (data h))))
             else None
         | _ \<Rightarrow>
             Some (Tensor [length (data h), length mesh]
                     (concat (replay (relay tmp) mesh
                                (replicate (length mesh) (fst sat)) (snd sat) (data h))))))"

text \<open>
  Modelled from the spec: \<open>predict_batched_state\<close> (\<open>states.py\<close>) is not part of the
  sources. By section 4.2 every candidate is a single-step continuation from the same
  current state and field (saturation when undefined), and the result has one row per
  candidate.
\<close>

definition predict_batched_state_spec ::
  "(real \<Rightarrow> real \<Rightarrow> real \<Rightarrow> real \<times> real \<Rightarrow> real \<Rightarrow> real) \<Rightarrow> real \<times> real
     \<Rightarrow> tensor \<Rightarrow> (real \<times> real) list \<Rightarrow> tensor option \<Rightarrow> tensor option \<Rightarrow> real \<Rightarrow> tensor option" where
  "predict_batched_state_spec relay sat c mesh current_state current_field tmp =
     (case (current_state, current_field) of
        (Some cs, Some cf) \<Rightarrow>
          if length (data cs) = length mesh \<and> length (data cf) = 1
          then Some (Tensor [length (data c), length mesh]
                       (concat (map (\<lambda>x. map2 (relay tmp (hd (data cf)) x) mesh (data cs)) (data c))))
          else None
      | _ \<Rightarrow>
          Some (Tensor [length (data c), length mesh]
                  (concat (map (\<lambda>x. map2 (relay tmp (snd sat) x) mesh
                                       (replicate (length mesh) (fst sat))) (data c)))))"

text \<open>
  The magnetization as the specification writes it, for the field value \<open>i\<close> and a
  state matrix in row-major order:
  \<open>m_norm = scale * (\<Sum> density_j * state_j / \<Sum> density_j) + offset + slope * h\<close>.
\<close>

definition spec_magnetization :: "model \<Rightarrow> tensor \<Rightarrow> tensor \<Rightarrow> nat \<Rightarrow> real" where
  "spec_magnetization s states h i =
     (let k = length (hysterion_density s) in
      scale s *
        ((\<Sum>j<k. hysterion_density s ! j * data states ! (i * k + j)) /
         (\<Sum>j<k. hysterion_density s ! j))
      + offset s + slope s * data h ! i)"

section \<open>A concrete instance\<close>

text \<open>
  The relay in the limit of zero temperature: up at or above \<open>\<alpha>\<close>, down at or below
  \<open>\<beta>\<close>, unchanged in between. The transform of the instance is the identity on the unit
  interval. The instance has two mesh points, the parameters of a fresh model (density
  1/2 each, offset 0, scale 1, slope 1) and no history.
\<close>

definition hard_relay :: "real \<Rightarrow> real \<Rightarrow> real \<Rightarrow> real \<times> real \<Rightarrow> real \<Rightarrow> real" where
  "hard_relay tmp previous_field new_field ab old_state =
     (if fst ab \<le> new_field then 1 else if new_field \<le> snd ab then 0 else old_state)"

definition unit_transform :: transformer where
  "unit_transform =
     \<lparr>transform_h = (\<lambda>h. h), transform_m = (\<lambda>h m. m),
      untransform_h = (\<lambda>h. h), untransform_m = (\<lambda>h m. m), domain = (0, 1)\<rparr>"

definition example_env :: collaborators where
  "example_env =
     \<lparr>HysteresisTransform = (\<lambda>h m. unit_transform),
      get_states = get_states_spec hard_relay (0, 0),
      predict_batched_state = predict_batched_state_spec hard_relay (0, 0)\<rparr>"

definition example_model :: model where
  "example_model =
     \<lparr>transformer = unit_transform, trainable = True, fixed_scaling = False,
      mesh_points = [(1/2, 1/4), (3/4, 1/2)], temp = 1/100,
      hysterion_density = [1/2, 1/2], offset = 0, scale = 1, slope = 1,
      mode = FITTING, history_h_buf = None, history_m_buf = None, states_buf = None\<rparr>"

text \<open>
  The instance after \<open>set_history(h, m)\<close> with \<open>h = [0, 1]\<close> and \<open>m = [0.1, 0.9]\<close>, and
  after a further \<open>apply_field([0.5])\<close>.
\<close>

definition fitted_model :: model where
  "fitted_model =
     snd (set_history example_env example_model (Tensor [2] [0, 1]) (Some (Tensor [2] [1/10, 9/10])))"

definition extended_model :: model where
  "extended_model = snd (apply_field example_env fitted_model (Tensor [1] [1/2]))"

text \<open>
  The cache of the states is valid: the history and the state matrix exist, the state
  matrix is what the state function returns for the whole stored history, started from
  saturation (no current state, no current field), and it has one row per stored field
  value and one column per mesh point.
\<close>

definition states_cached :: "collaborators \<Rightarrow> model \<Rightarrow> bool" where
  "states_cached env s =
     (case (history_h_buf s, states_buf s) of
        (Some hh, Some st) \<Rightarrow>
          get_states env hh (mesh_points s) None None (temp s) = Some st \<and>
          length (shape hh) = 1 \<and>
          shape st = [length (data hh), length (mesh_points s)] \<and>
          wf_tensor st
      | _ \<Rightarrow> False)"

section \<open>Properties\<close>

lemmas msg_defs =
  msg_must_specify_field_def msg_no_training_data_def msg_history_shape_def
  msg_not_history_fields_def msg_no_history_data_def msg_future_1d_def
  msg_mode_not_accepted_def msg_outside_domain_def msg_history_h_1d_def
  msg_history_m_1d_def msg_h_equals_m_def

lemmas example_defs =
  example_env_def example_model_def unit_transform_def get_states_spec_def
  predict_batched_state_spec_def hard_relay_def

lemma check_domain_Inl:
  "check_inside_valid_domain s x = Inl e \<longleftrightarrow>
     e = HysteresisError msg_outside_domain \<and>
     (\<exists>v \<in> set (data x). v < fst (valid_domain s) - 1 / 10000 \<or> snd (valid_domain s) + 1 / 10000 < v)"
  by (auto simp: check_inside_valid_domain_def list_ex_iff Let_def)

lemma index_last_error: "index_last t = Inl e \<Longrightarrow> \<exists>m. e = IndexError m"
  by (auto simp: index_last_def split: list.splits if_splits)

lemma current_state_field_error:
  "current_state_field s = Inl e \<Longrightarrow> (\<exists>m. e = IndexError m) \<or> (\<exists>m. e = AttributeError m)"
  by (auto simp: current_state_field_def split: option.splits sum.splits dest: index_last_error)

lemma allclose_error: "allclose a b = Inl e \<Longrightarrow> \<exists>m. e = RuntimeError m \<and> m \<noteq> msg_no_training_data"
  by (auto simp: allclose_def msg_no_training_data_def split: option.splits)

lemma predict_error:
  "predict_normalized_magnetization s st h = Inl e \<Longrightarrow> \<exists>m. e = RuntimeError m \<and> m \<noteq> msg_no_training_data"
  by (auto simp: predict_normalized_magnetization_def broadcast_op_def reshape_def Let_def
        msg_no_training_data_def split: option.splits sum.splits if_splits)

lemma mode_states_error:
  "mode_states env s x cs cf = Inl e \<Longrightarrow>
     e = RuntimeError msg_no_training_data \<or> e = HysteresisError msg_history_shape \<or>
     e = HysteresisError msg_not_history_fields \<or> e = HysteresisError msg_no_history_data \<or>
     e = ValueError msg_future_1d \<or> e = ValueError msg_mode_not_accepted \<or>
     (\<exists>m. e = AttributeError m) \<or> (\<exists>m. e = TypeError m) \<or> (\<exists>m. e = CollaboratorError m) \<or>
     (\<exists>m. e = RuntimeError m \<and> m \<noteq> msg_no_training_data)"
  unfolding mode_states_def
  by (auto simp: Let_def split: option.splits sum.splits if_splits prod.splits dest: allclose_error)

lemmas eval_defs =
  set_history_def apply_field_def update_h_history_buffer_def forward_def mode_states_def
  current_state_field_def predict_normalized_magnetization_def check_inside_valid_domain_def
  valid_domain_def transform_def untransform_def torch_equal_def atleast_1d_def cat_def
  index_last_def unsqueeze0_def broadcast_op_def broadcast_shapes_def expand_to_def
  sum_last_def reshape_def allclose_def reset_history_def Let_def

lemma fitted_model_eq:
  "fitted_model = example_model\<lparr>history_h_buf := Some (Tensor [2] [0, 1]),
      history_m_buf := Some (Tensor [2] [1/10, 9/10]),
      states_buf := Some (Tensor [2, 2] [0, 0, 1, 1])\<rparr>"
  by (simp add: fitted_model_def example_defs eval_defs)

lemma extended_model_eq:
  "extended_model = example_model\<lparr>history_h_buf := Some (Tensor [3] [0, 1, 1/2]),
      history_m_buf := Some (Tensor [2] [1/10, 9/10]),
      states_buf := Some (Tensor [3, 2] [0, 0, 1, 1, 1, 0])\<rparr>"
  by (simp add: extended_model_def fitted_model_eq example_defs eval_defs)

lemma set_history_without_m_example:
  "set_history example_env (example_model\<lparr>mode := NEXT\<rparr>) (Tensor [2] [0, 1]) None =
   (None, example_model\<lparr>mode := NEXT, history_h_buf := Some (Tensor [2] [0, 1]),
      history_m_buf := Some (Tensor [2] [0, 2]),
      states_buf := Some (Tensor [2, 2] [0, 0, 1, 1])\<rparr>)"
  by (simp add: example_defs eval_defs)

lemma forward_current_no_history:
  assumes "history_h_buf t = None" and "mode t = CURRENT"
  shows "forward env t x rr =
     Inl (HysteresisError
            (if \<exists>xt. x = Some xt \<and> check_inside_valid_domain t xt \<noteq> Inr ()
             then msg_outside_domain else msg_no_history_data))"
proof (cases x)
  case None
  with assms show ?thesis
    by (simp add: forward_def current_state_field_def mode_states_def)
next
  case (Some xt)
  show ?thesis
  proof (cases "check_inside_valid_domain t xt")
    case (Inl e)
    then have "e = HysteresisError msg_outside_domain" by (simp add: check_domain_Inl)
    with Inl Some show ?thesis by (simp add: forward_def)
  next
    case (Inr u)
    with Some assms show ?thesis
      by (simp add: forward_def current_state_field_def mode_states_def)
  qed
qed

lemma concat_singletons: "concat (map (\<lambda>i. [f i]) is) = map f is"
  by (induction "is") simp_all

lemma expand_row_same:
  assumes "length xs = k"
  shows "expand [k] [k] xs = xs"
proof -
  have m: "map (\<lambda>i. take (Suc 0) (drop ((if k = Suc 0 then 0 else i)) xs)) [0..<k]
        = map (\<lambda>i. [xs ! i]) [0..<k]"
  proof (rule map_cong[OF refl])
    fix i assume "i \<in> set [0..<k]"
    then have i: "i < length xs" using assms by simp
    then have "(if k = Suc 0 then 0 else i) = i" using assms by auto
    moreover from i have "take (Suc 0) (drop i xs) = [xs ! i]"
      by (simp add: take_Suc_conv_app_nth)
    ultimately show "take (Suc 0) (drop ((if k = Suc 0 then 0 else i)) xs) = [xs ! i]"
      by simp
  qed
  have "expand [k] [k] xs
      = concat (map (\<lambda>i. take (Suc 0) (drop ((if k = Suc 0 then 0 else i)) xs)) [0..<k])"
    by simp
  also have "\<dots> = concat (map (\<lambda>i. [xs ! i]) [0..<k])"
    by (simp only: m)
  also have "\<dots> = map (\<lambda>i. xs ! i) [0..<k]" by (rule concat_singletons)
  also have "\<dots> = xs" using map_nth[of xs] assms by simp
  finally show ?thesis .
qed

lemma concat_chunks:
  "length xs = n * k \<Longrightarrow> concat (map (\<lambda>i. take k (drop (i * k) xs)) [0..<n]) = xs"
proof (induction n arbitrary: xs)
  case 0
  then show ?case by simp
next
  case (Suc n)
  have "[0..<Suc n] = 0 # map Suc [0..<n]"
    by (simp add: upt_conv_Cons map_Suc_upt del: upt_Suc)
  then have "concat (map (\<lambda>i. take k (drop (i * k) xs)) [0..<Suc n])
      = take k xs @ concat (map (\<lambda>i. take k (drop (i * k) (drop k xs))) [0..<n])"
    by (simp add: comp_def add.commute del: upt_Suc)
  also have "concat (map (\<lambda>i. take k (drop (i * k) (drop k xs))) [0..<n]) = drop k xs"
    using Suc.prems by (intro Suc.IH) simp
  finally show ?case by simp
qed

lemma chunk_of_replicate:
  "i < n \<Longrightarrow> take (length d) (drop (i * length d) (concat (replicate n d))) = d"
proof (induction n arbitrary: i)
  case 0
  then show ?case by simp
next
  case (Suc n)
  show ?case
  proof (cases i)
    case 0
    then show ?thesis by simp
  next
    case (Suc j)
    with Suc.prems have "j < n" by simp
    from Suc.IH[OF this] Suc show ?thesis by simp
  qed
qed

lemma sum_list_map2_nth:
  "length xs = length ys \<Longrightarrow>
     sum_list (map2 f xs ys) = (\<Sum>j<length xs. (f (xs ! j) (ys ! j) :: real))"
  by (simp add: sum_list_sum_nth atLeast0LessThan)


lemma expand_same:
  "length xs = prod_list sh \<Longrightarrow> expand sh sh xs = xs"
proof (induction sh arbitrary: xs)
  case Nil
  then show ?case by simp
next
  case (Cons a as)
  let ?p = "prod_list as"
  have m: "map (\<lambda>i. expand as as (take ?p (drop ((if a = 1 then 0 else i) * ?p) xs))) [0..<a]
        = map (\<lambda>i. take ?p (drop (i * ?p) xs)) [0..<a]"
  proof (rule map_cong[OF refl])
    fix i assume "i \<in> set [0..<a]"
    then have i: "i < a" by simp
    then have c: "(if a = 1 then 0 else i) = i" by auto
    from i have "Suc i \<le> a" by simp
    then have "Suc i * ?p \<le> a * ?p" by (rule mult_le_mono1)
    then have "length (take ?p (drop (i * ?p) xs)) = ?p" using Cons.prems by simp
    then show "expand as as (take ?p (drop ((if a = 1 then 0 else i) * ?p) xs))
         = take ?p (drop (i * ?p) xs)"
      unfolding c by (rule Cons.IH)
  qed
  have "expand (a # as) (a # as) xs
      = concat (map (\<lambda>i. expand as as (take ?p (drop ((if a = 1 then 0 else i) * ?p) xs))) [0..<a])"
    by simp
  also have "\<dots> = concat (map (\<lambda>i. take ?p (drop (i * ?p) xs)) [0..<a])"
    by (simp only: m)
  also have "\<dots> = xs" using Cons.prems by (intro concat_chunks) simp
  finally show ?case .
qed

lemma concat_replicate_mult:
  "concat (replicate a (concat (replicate b d))) = concat (replicate (a * b) d)"
  by (induction a) (simp_all add: replicate_add)

lemma expand_density:
  "expand (replicate (length sh) 1 @ [length d]) (sh @ [length d]) d
     = concat (replicate (prod_list sh) d)"
proof (induction sh)
  case Nil
  have "expand [length d] [length d] d = d" by (rule expand_same) simp
  then show ?case by simp
next
  case (Cons a as)
  have p: "prod_list (replicate (length as) (1::nat) @ [length d]) = length d"
    by (induction as) simp_all
  have "expand (replicate (length (a # as)) 1 @ [length d]) ((a # as) @ [length d]) d
      = concat (map (\<lambda>i. expand (replicate (length as) 1 @ [length d]) (as @ [length d]) d) [0..<a])"
    by (simp add: p)
  also have "\<dots> = concat (map (\<lambda>i. concat (replicate (prod_list as) d)) [0..<a])"
    by (simp only: Cons.IH)
  also have "\<dots> = concat (replicate a (concat (replicate (prod_list as) d)))"
    by (simp add: map_replicate_const)
  also have "\<dots> = concat (replicate (prod_list (a # as)) d)"
    by (simp add: concat_replicate_mult)
  finally show ?case .
qed

lemma broadcast_density_states:
  assumes "shape st = sh @ [length d]" and "length (data st) = prod_list sh * length d"
  shows "broadcast_op (*) (Tensor [length d] d) st
     = Inr (Tensor (sh @ [length d]) (map2 (*) (concat (replicate (prod_list sh) d)) (data st)))"
proof -
  have b: "broadcast_shapes [length d] (sh @ [length d]) = Some (sh @ [length d])"
    by (simp add: broadcast_shapes_def)
  have e1: "expand_to (sh @ [length d]) (Tensor [length d] d) = concat (replicate (prod_list sh) d)"
    using expand_density[of sh d] by (simp add: expand_to_def del: expand.simps)
  have e2: "expand_to (sh @ [length d]) st = data st"
    using assms by (simp add: expand_to_def expand_same del: expand.simps)
  show ?thesis
    using assms(1) by (simp add: broadcast_op_def b e1 e2 del: expand.simps)
qed

lemma weighted_row:
  fixes d xs :: "real list"
  assumes "i < n" and "length xs = n * length d"
  shows "take (length d) (drop (i * length d) (map2 (*) (concat (replicate n d)) xs))
     = map2 (*) d (take (length d) (drop (i * length d) xs))"
proof -
  have "take (length d) (drop (i * length d) (map2 (*) (concat (replicate n d)) xs))
      = map2 (*) (take (length d) (drop (i * length d) (concat (replicate n d))))
                 (take (length d) (drop (i * length d) xs))"
    by (simp add: take_map drop_map take_zip drop_zip)
  with chunk_of_replicate[OF assms(1), of d] show ?thesis by simp
qed

lemma row_sum_formula:
  fixes d xs :: "real list"
  assumes "i < n" and "length xs = n * length d"
  shows "sum_list (map2 (*) d (take (length d) (drop (i * length d) xs)))
     = (\<Sum>j<length d. d ! j * xs ! (i * length d + j))"
proof -
  from assms(1) have "Suc i \<le> n" by simp
  then have "Suc i * length d \<le> n * length d" by (rule mult_le_mono1)
  then have len: "length (take (length d) (drop (i * length d) xs)) = length d"
    using assms(2) by simp
  have "sum_list (map2 (*) d (take (length d) (drop (i * length d) xs)))
      = (\<Sum>j<length d. d ! j * take (length d) (drop (i * length d) xs) ! j)"
    using sum_list_map2_nth[where xs = d and ys = "take (length d) (drop (i * length d) xs)"
        and f = "\<lambda>a b. a * b"] len
    by simp
  also have "\<dots> = (\<Sum>j<length d. d ! j * xs ! (i * length d + j))"
  proof (rule sum.cong[OF refl])
    fix j assume "j \<in> {..<length d}"
    then have j: "j < length d" by simp
    have "i * length d + j < Suc i * length d" using j by simp
    with \<open>Suc i * length d \<le> n * length d\<close> have "i * length d + j < length xs"
      using assms(2) by linarith
    with j show "d ! j * take (length d) (drop (i * length d) xs) ! j
        = d ! j * xs ! (i * length d + j)"
      by simp
  qed
  finally show ?thesis .
qed

lemma predict_value:
  assumes sh: "shape st = sh @ [length (hysterion_density s)]"
      and wf: "wf_tensor st" and wfh: "wf_tensor nh"
      and r: "predict_normalized_magnetization s st nh = Inr r"
  shows "shape r = (if shape nh = [] then [1] else shape nh)
     \<and> prod_list (shape nh) = prod_list sh
     \<and> length (data r) = prod_list sh
     \<and> (\<forall>i<prod_list sh. data r ! i = spec_magnetization s st nh i)"
proof -
  let ?d = "hysterion_density s"
  let ?n = "prod_list sh"
  let ?w = "map2 (*) (concat (replicate ?n ?d)) (data st)"
  let ?m = "map (\<lambda>i. sum_list (take (length ?d) (drop (i * length ?d) ?w)) / sum_list ?d) [0..<?n]"
  from sh wf have len: "length (data st) = ?n * length ?d" by (simp add: wf_tensor_def)
  have bc: "broadcast_op (*) (Tensor [length ?d] ?d) st = Inr (Tensor (sh @ [length ?d]) ?w)"
    using sh len by (rule broadcast_density_states)
  have sl: "sum_last (Tensor (sh @ [length ?d]) ?w)
      = Tensor sh (map (\<lambda>i. sum_list (take (length ?d) (drop (i * length ?d) ?w))) [0..<?n])"
    by (simp add: sum_last_def list.case_eq_if)
  from r have r': "(case reshape (Tensor sh ?m) (shape nh) of
        Inl e \<Rightarrow> Inl e
      | Inr m' \<Rightarrow> Inr (Tensor (if shape nh = [] then [1] else shape nh)
          (map2 (\<lambda>mi hi. scale s * mi + offset s + hi * slope s) (data m') (data nh)))) = Inr r"
    by (simp add: predict_normalized_magnetization_def bc sl Let_def comp_def)
  then have pn: "prod_list (shape nh) = ?n"
    and rv: "r = Tensor (if shape nh = [] then [1] else shape nh)
          (map2 (\<lambda>mi hi. scale s * mi + offset s + hi * slope s) ?m (data nh))"
    by (auto simp: reshape_def split: if_splits)
  from pn wfh have lh: "length (data nh) = ?n" by (simp add: wf_tensor_def)
  have val: "data r ! i = spec_magnetization s st nh i" if i: "i < ?n" for i
  proof -
    have "data r ! i = scale s * (?m ! i) + offset s + data nh ! i * slope s"
      using i lh by (simp add: rv del: upt_Suc)
    moreover have "?m ! i = sum_list (take (length ?d) (drop (i * length ?d) ?w)) / sum_list ?d"
      using i by (simp del: upt_Suc)
    moreover have "sum_list (take (length ?d) (drop (i * length ?d) ?w))
        = (\<Sum>j<length ?d. ?d ! j * data st ! (i * length ?d + j))"
      using weighted_row[OF i len] row_sum_formula[OF i len] by simp
    moreover have "sum_list ?d = (\<Sum>j<length ?d. ?d ! j)"
      by (simp add: sum_list_sum_nth atLeast0LessThan)
    ultimately show ?thesis
      by (simp add: spec_magnetization_def Let_def mult.commute)
  qed
  from rv lh have "length (data r) = ?n" by simp
  with rv val pn show ?thesis by simp
qed

lemma allclose_same_length:
  assumes "shape a = [n]" and "length (data a) = n" and "shape b = [n]" and "length (data b) = n"
  shows "allclose a b
     = Inr (list_all2 (\<lambda>x y. \<bar>x - y\<bar> \<le> 1 / 100000000 + 1 / 100000 * \<bar>y\<bar>) (data a) (data b))"
proof -
  have b: "broadcast_shapes [n] [n] = Some [n]" by (simp add: broadcast_shapes_def)
  have e: "expand_to [n] a = data a" "expand_to [n] b = data b"
    using assms by (simp_all add: expand_to_def expand_row_same del: expand.simps)
  show ?thesis
    using assms by (simp add: allclose_def b e list_all2_iff list_all_iff)
qed

lemma length_concat_replay:
  "length st = length mesh \<Longrightarrow>
     length (concat (replay step mesh st fld hs)) = length hs * length mesh"
  by (induction hs arbitrary: st fld) (simp_all add: Let_def)

lemma get_states_spec_shape:
  assumes "get_states_spec relay sat h mesh None None tmp = Some st"
  shows "length (shape h) = 1 \<and> shape st = [length (data h), length mesh] \<and> wf_tensor st"
proof -
  from assms have l: "length (shape h) = 1"
    by (simp add: get_states_spec_def split: if_splits)
  with assms have st: "st = Tensor [length (data h), length mesh]
      (concat (replay (relay tmp) mesh (replicate (length mesh) (fst sat)) (snd sat) (data h)))"
    by (simp add: get_states_spec_def)
  have "length (concat (replay (relay tmp) mesh (replicate (length mesh) (fst sat)) (snd sat) (data h)))
      = length (data h) * length mesh"
    by (rule length_concat_replay) simp
  with l st show ?thesis by (simp add: wf_tensor_def)
qed

lemma update_buffer_cached:
  assumes gs: "get_states env = get_states_spec relay sat"
      and ok: "update_h_history_buffer env s t = (None, s')"
  shows "states_cached env s' \<and> history_h_buf s' = Some t"
proof -
  from ok obtain st where g: "get_states env t (mesh_points s) None None (temp s) = Some st"
    and s': "s' = s\<lparr>history_h_buf := Some t, states_buf := Some st\<rparr>"
    by (auto simp: update_h_history_buffer_def Let_def split: option.splits)
  from g gs have "get_states_spec relay sat t (mesh_points s) None None (temp s) = Some st"
    by simp
  from get_states_spec_shape[OF this] g s' show ?thesis
    by (simp add: states_cached_def)
qed

lemma states_cached_frame:
  "states_cached env (s\<lparr>history_m_buf := hm\<rparr>) = states_cached env s"
  "states_cached env (s\<lparr>mode := md\<rparr>) = states_cached env s"
  by (simp_all add: states_cached_def split: option.splits)

lemma set_history_success:
  assumes ok: "fst (set_history env s h m) = None"
  shows "\<exists>s1 s2 md hm.
           update_h_history_buffer env s1 (transform_h (transformer s1) h) = (None, s2)
           \<and> snd (set_history env s h m) = s2\<lparr>mode := md, history_m_buf := hm\<rparr>"
proof -
  define s1 where "s1 = (if trainable s \<and> \<not> fixed_scaling s
             then s\<lparr>transformer := HysteresisTransform env h m\<rparr> else s)"
  define nh where "nh = transform_h (transformer s1) h"
  obtain e s2 where u: "update_h_history_buffer env s1 nh = (e, s2)"
    by (cases "update_h_history_buffer env s1 nh")
  have sh: "set_history env s h m =
     (if length (shape h) \<noteq> 1 then (Some (ValueError msg_history_h_1d), s1)
      else if m \<noteq> None \<and> torch_equal h (the m) then (Some (RuntimeError msg_h_equals_m), s1)
      else
        (case e of
           Some err \<Rightarrow> (Some err, s2)
         | None \<Rightarrow>
             (case m of
                Some mm \<Rightarrow> (None, s2\<lparr>history_m_buf := Some (transform_m (transformer s1) h mm)\<rparr>)
              | None \<Rightarrow>
                  (case forward env (s2\<lparr>mode := REGRESSION\<rparr>) (Some h) False of
                     Inl err \<Rightarrow> (Some err, s2\<lparr>mode := REGRESSION\<rparr>)
                   | Inr mm \<Rightarrow> (None, s2\<lparr>mode := mode s2, history_m_buf := Some mm\<rparr>)))))"
    unfolding set_history_def transform_def Let_def s1_def[symmetric] prod.case nh_def[symmetric] u
    by (cases e; cases m; simp split: sum.splits)
  have c1: "length (shape h) = 1"
  proof (rule ccontr)
    assume "length (shape h) \<noteq> 1"
    with sh have "fst (set_history env s h m) = Some (ValueError msg_history_h_1d)" by simp
    with ok show False by simp
  qed
  have c3: "\<not> (m \<noteq> None \<and> torch_equal h (the m))"
  proof
    assume "m \<noteq> None \<and> torch_equal h (the m)"
    with sh c1 have "fst (set_history env s h m) = Some (RuntimeError msg_h_equals_m)" by simp
    with ok show False by simp
  qed
  have n1: "\<not> length (shape h) \<noteq> 1" using c1 by simp
  have sh': "set_history env s h m =
        (case e of
           Some err \<Rightarrow> (Some err, s2)
         | None \<Rightarrow>
             (case m of
                Some mm \<Rightarrow> (None, s2\<lparr>history_m_buf := Some (transform_m (transformer s1) h mm)\<rparr>)
              | None \<Rightarrow>
                  (case forward env (s2\<lparr>mode := REGRESSION\<rparr>) (Some h) False of
                     Inl err \<Rightarrow> (Some err, s2\<lparr>mode := REGRESSION\<rparr>)
                   | Inr mm \<Rightarrow> (None, s2\<lparr>mode := mode s2, history_m_buf := Some mm\<rparr>))))"
    by (simp only: sh if_not_P[OF n1] if_not_P[OF c3])
  have e: "e = None"
  proof (cases e)
    case None then show ?thesis .
  next
    case (Some err)
    with sh' have "fst (set_history env s h m) = Some err" by simp
    with ok show ?thesis by simp
  qed
  show ?thesis
  proof (cases m)
    case (Some mm)
    with sh' e have "snd (set_history env s h m)
        = s2\<lparr>mode := mode s2, history_m_buf := Some (transform_m (transformer s1) h mm)\<rparr>"
      by simp
    with u e show ?thesis unfolding nh_def by blast
  next
    case None
    show ?thesis
    proof (cases "forward env (s2\<lparr>mode := REGRESSION\<rparr>) (Some h) False")
      case (Inl err)
      with sh' e None have "fst (set_history env s h m) = Some err" by simp
      with ok show ?thesis by simp
    next
      case (Inr mm)
      with sh' e None have "snd (set_history env s h m)
          = s2\<lparr>mode := mode s2, history_m_buf := Some mm\<rparr>"
        by simp
      with u e show ?thesis unfolding nh_def by blast
    qed
  qed
qed

lemma update_buffer_transformer:
  "update_h_history_buffer env s t = (e, s') \<Longrightarrow> transformer s' = transformer s"
  by (auto simp: update_h_history_buffer_def Let_def split: option.splits)

lemma set_history_cached:
  assumes gs: "get_states env = get_states_spec relay sat"
      and ok: "fst (set_history env s h m) = None"
  shows "states_cached env (snd (set_history env s h m))
     \<and> history_h_buf (snd (set_history env s h m))
         = Some (transform_h (transformer (snd (set_history env s h m))) h)"
proof -
  from set_history_success[OF ok] obtain s1 s2 md hm
    where u: "update_h_history_buffer env s1 (transform_h (transformer s1) h) = (None, s2)"
      and s': "snd (set_history env s h m) = s2\<lparr>mode := md, history_m_buf := hm\<rparr>"
    by blast
  from update_buffer_cached[OF gs u]
  have c: "states_cached env s2"
    and hh: "history_h_buf s2 = Some (transform_h (transformer s1) h)"
    by simp_all
  from update_buffer_transformer[OF u] have tr: "transformer s2 = transformer s1" .
  from c have "states_cached env (s2\<lparr>mode := md, history_m_buf := hm\<rparr>)"
    by (simp add: states_cached_frame)
  with s' hh tr show ?thesis by simp
qed

lemma apply_field_success:
  assumes ok: "fst (apply_field env s x) = None"
  shows "\<exists>t. update_h_history_buffer env s t = (None, snd (apply_field env s x))
           \<and> (case history_h_buf s of
                 None \<Rightarrow> t = transform_h (transformer s) (atleast_1d x)
               | Some hh \<Rightarrow> cat hh (transform_h (transformer s) (atleast_1d x)) = Inr t)"
proof (cases "check_inside_valid_domain s (atleast_1d x)")
  case (Inl e)
  with ok show ?thesis by (simp add: apply_field_def Let_def)
next
  case chk: (Inr u)
  show ?thesis
  proof (cases "history_h_buf s")
    case None
    with chk have "apply_field env s x
        = update_h_history_buffer env s (transform_h (transformer s) (atleast_1d x))"
      by (simp add: apply_field_def Let_def transform_def)
    with ok None show ?thesis
      by (cases "update_h_history_buffer env s (transform_h (transformer s) (atleast_1d x))") auto
  next
    case (Some hh)
    show ?thesis
    proof (cases "cat hh (transform_h (transformer s) (atleast_1d x))")
      case (Inl e)
      with chk Some ok show ?thesis by (simp add: apply_field_def Let_def transform_def)
    next
      case (Inr t)
      with chk Some have "apply_field env s x = update_h_history_buffer env s t"
        by (simp add: apply_field_def Let_def transform_def)
      with ok Some Inr show ?thesis
        by (cases "update_h_history_buffer env s t") auto
    qed
  qed
qed

lemma apply_field_cached:
  assumes gs: "get_states env = get_states_spec relay sat"
      and ok: "fst (apply_field env s x) = None"
  shows "states_cached env (snd (apply_field env s x))"
proof -
  from apply_field_success[OF ok] obtain t
    where "update_h_history_buffer env s t = (None, snd (apply_field env s x))" by blast
  from update_buffer_cached[OF gs this] show ?thesis by simp
qed

lemma apply_field_fitted_ok: "fst (apply_field example_env fitted_model (Tensor [1] [1/2])) = None"
  by (simp add: fitted_model_eq example_defs eval_defs)

subsection \<open>A missing input\<close>

text \<open>
  Claim C10. In every mode other than \<open>CURRENT\<close>, \<open>forward\<close> without an input tensor
  raises the HysteresisError "must specify field when not using CURRENT mode", whatever
  the history, the cached states and the collaborators are: nothing of them is read
  before. In \<open>CURRENT\<close> mode that error is never raised: it is the only mode that accepts
  a missing input.
\<close>

theorem forward_missing_input:
  "(forward env s None return_real = Inl (HysteresisError msg_must_specify_field))
     = (mode s \<noteq> CURRENT)"
proof (cases "mode s = CURRENT")
  case False
  then show ?thesis by (simp add: forward_def)
next
  case True
  have "forward env s None return_real \<noteq> Inl (HysteresisError msg_must_specify_field)"
  proof
    assume a: "forward env s None return_real = Inl (HysteresisError msg_must_specify_field)"
    show False
    proof (cases "current_state_field s")
      case (Inl e)
      with a True current_state_field_error[OF Inl] show False
        by (auto simp: forward_def)
    next
      case (Inr p)
      obtain cs cf where p: "p = (cs, cf)" by (cases p)
      show False
      proof (cases "mode_states env s None cs cf")
        case (Inl e)
        with a True Inr p mode_states_error[OF Inl] show False
          by (auto simp: forward_def msg_defs)
      next
        case (Inr q)
        obtain st nh where q: "q = (st, nh)" by (cases q)
        from a True \<open>current_state_field s = Inr p\<close> p Inr q show False
          by (auto simp: forward_def untransform_def split: sum.splits if_splits dest: predict_error)
      qed
    qed
  qed
  with True show ?thesis by simp
qed

theorem forward_missing_input_witness:
  "forward example_env example_model None False = Inl (HysteresisError msg_must_specify_field)
   \<and> forward example_env (example_model\<lparr>mode := CURRENT\<rparr>) None False
       \<noteq> Inl (HysteresisError msg_must_specify_field)"
  using forward_missing_input [of example_env example_model False]
    forward_missing_input [of example_env "example_model\<lparr>mode := CURRENT\<rparr>" False]
  by (simp add: example_model_def)


subsection \<open>Validation in \<open>set_history\<close>\<close>

text \<open>
  Claim C7. For every tensor \<open>h\<close>, \<open>set_history(h, h)\<close> raises a configuration error:
  the ValueError of the dimension check when \<open>h\<close> is not 1-dimensional, the RuntimeError
  "train h and train m cannot be equal" otherwise. The three buffers of the history and
  of the states are those before the call. (The transform may have been rebuilt before
  the checks; it is no buffer of the history.)
\<close>

theorem set_history_h_equals_m:
  "fst (set_history env s h (Some h))
     = Some (if length (shape h) \<noteq> 1 then ValueError msg_history_h_1d else RuntimeError msg_h_equals_m)
   \<and> (\<exists>e. fst (set_history env s h (Some h)) = Some e \<and> is_configuration_error e)
   \<and> history_h_buf (snd (set_history env s h (Some h))) = history_h_buf s
   \<and> history_m_buf (snd (set_history env s h (Some h))) = history_m_buf s
   \<and> states_buf (snd (set_history env s h (Some h))) = states_buf s"
  by (simp add: set_history_def Let_def torch_equal_def is_configuration_error_def)

theorem set_history_h_equals_m_witness:
  "fst (set_history example_env example_model (Tensor [2] [0, 1]) (Some (Tensor [2] [0, 1])))
     = Some (RuntimeError msg_h_equals_m)
   \<and> history_h_buf (snd (set_history example_env example_model (Tensor [2] [0, 1]) (Some (Tensor [2] [0, 1])))) = None"
  using set_history_h_equals_m [of example_env example_model "Tensor [2] [0, 1]"]
  by (simp add: example_model_def)


text \<open>
  Claim C8, at the input \<open>h = [0, 1]\<close>, \<open>m = [[0.1, 0.9]]\<close>. The check of the dimension
  of \<open>history_m\<close> reads the shape of \<open>history_h\<close>: with a 1-dimensional \<open>h\<close> a
  2-dimensional \<open>m\<close> passes it, no configuration error is raised, and both histories are
  stored.
\<close>

theorem set_history_accepts_m_not_1d:
  "set_history example_env example_model (Tensor [2] [0, 1]) (Some (Tensor [1, 2] [1/10, 9/10]))
     = (None, example_model\<lparr>history_h_buf := Some (Tensor [2] [0, 1]),
          history_m_buf := Some (Tensor [1, 2] [1/10, 9/10]),
          states_buf := Some (Tensor [2, 2] [0, 0, 1, 1])\<rparr>)"
  by (simp add: example_defs eval_defs)

text \<open>
  Claim C9. When \<open>set_history(h)\<close>, called without \<open>m\<close>, returns, the mode of the model
  is the mode before the call: the switch to \<open>REGRESSION\<close> around the evaluation of
  \<open>forward\<close> is undone.
\<close>

theorem set_history_restores_mode:
  "fst (set_history env s h None) = None \<Longrightarrow> mode (snd (set_history env s h None)) = mode s"
  by (auto simp: set_history_def update_h_history_buffer_def Let_def transform_def
        split: if_splits option.splits sum.splits prod.splits)

theorem set_history_restores_mode_witness:
  "fst (set_history example_env (example_model\<lparr>mode := NEXT\<rparr>) (Tensor [2] [0, 1]) None) = None
   \<and> mode (snd (set_history example_env (example_model\<lparr>mode := NEXT\<rparr>) (Tensor [2] [0, 1]) None)) = NEXT"
  using set_history_restores_mode [of example_env "example_model\<lparr>mode := NEXT\<rparr>" "Tensor [2] [0, 1]"]
  by (simp add: set_history_without_m_example)

subsection \<open>\<open>reset_history\<close>\<close>

text \<open>
  Claim C5, as stated, fails: \<open>reset_history\<close> deletes the buffers \<open>_history_h\<close> and
  \<open>_history_m\<close> and leaves the cached state matrix \<open>_states\<close> where it is. On the
  instance with the history \<open>h = [0, 1]\<close>, \<open>m = [0.1, 0.9]\<close> the state matrix is still
  there after the call.
\<close>

theorem reset_history_keeps_states:
  "history_h_buf fitted_model = Some (Tensor [2] [0, 1])
   \<and> fst (reset_history fitted_model) = None
   \<and> states_buf (snd (reset_history fitted_model)) = Some (Tensor [2, 2] [0, 0, 1, 1])"
  by (simp add: fitted_model_eq reset_history_def example_model_def)

text \<open>
  Claim C5, amended. For every model with a stored field history and a stored
  magnetization history, \<open>reset_history\<close> returns, has deleted both histories and has left
  the cached state matrix unchanged; a following \<open>forward\<close> in \<open>CURRENT\<close> mode raises an
  error whatever its arguments are: the domain error when an input tensor is given that
  fails the domain check, the mode-consistency error "no history data to determine
  current state" in every other case.
\<close>

theorem reset_history_then_current:
  assumes "history_h_buf s = Some hh" and "history_m_buf s = Some hm"
  shows "fst (reset_history s) = None
     \<and> history_h_buf (snd (reset_history s)) = None
     \<and> history_m_buf (snd (reset_history s)) = None
     \<and> states_buf (snd (reset_history s)) = states_buf s
     \<and> forward env ((snd (reset_history s))\<lparr>mode := CURRENT\<rparr>) x return_real =
         Inl (HysteresisError
                (if \<exists>xt. x = Some xt \<and> check_inside_valid_domain s xt \<noteq> Inr ()
                 then msg_outside_domain else msg_no_history_data))"
proof -
  have r: "reset_history s = (None, s\<lparr>history_h_buf := None, history_m_buf := None\<rparr>)"
    using assms by (simp add: reset_history_def)
  have c: "check_inside_valid_domain (s\<lparr>history_h_buf := None, history_m_buf := None, mode := CURRENT\<rparr>) xt
           = check_inside_valid_domain s xt" for xt
    by (simp add: check_inside_valid_domain_def valid_domain_def)
  have "forward env (s\<lparr>history_h_buf := None, history_m_buf := None, mode := CURRENT\<rparr>) x return_real =
         Inl (HysteresisError
                (if \<exists>xt. x = Some xt \<and> check_inside_valid_domain s xt \<noteq> Inr ()
                 then msg_outside_domain else msg_no_history_data))"
    using forward_current_no_history
      [of "s\<lparr>history_h_buf := None, history_m_buf := None, mode := CURRENT\<rparr>" env x return_real]
    by (simp add: c)
  with r show ?thesis by simp
qed

theorem reset_history_then_current_witness:
  "fst (reset_history fitted_model) = None
   \<and> history_h_buf (snd (reset_history fitted_model)) = None
   \<and> history_m_buf (snd (reset_history fitted_model)) = None
   \<and> forward example_env ((snd (reset_history fitted_model))\<lparr>mode := CURRENT\<rparr>) None False
       = Inl (HysteresisError msg_no_history_data)
   \<and> forward example_env ((snd (reset_history fitted_model))\<lparr>mode := CURRENT\<rparr>)
         (Some (Tensor [1] [1/2])) False
       = Inl (HysteresisError msg_no_history_data)
   \<and> forward example_env ((snd (reset_history fitted_model))\<lparr>mode := CURRENT\<rparr>)
         (Some (Tensor [1] [2])) False
       = Inl (HysteresisError msg_outside_domain)"
  using reset_history_then_current
      [of fitted_model "Tensor [2] [0, 1]" "Tensor [2] [1/10, 9/10]" example_env None False]
    reset_history_then_current
      [of fitted_model "Tensor [2] [0, 1]" "Tensor [2] [1/10, 9/10]" example_env "Some (Tensor [1] [1/2])" False]
    reset_history_then_current
      [of fitted_model "Tensor [2] [0, 1]" "Tensor [2] [1/10, 9/10]" example_env "Some (Tensor [1] [2])" False]
  by (simp add: fitted_model_eq example_model_def unit_transform_def
        check_inside_valid_domain_def valid_domain_def Let_def)

subsection \<open>\<open>FUTURE\<close> mode\<close>

text \<open>
  Claim C6, as stated, fails: \<open>FUTURE\<close> mode does not need a history. On the instance
  without history a 1-dimensional input gives a prediction; the state function is called
  without current state and field and starts from saturation.
\<close>

theorem forward_future_without_history:
  "history_h_buf (example_model\<lparr>mode := FUTURE\<rparr>) = None
   \<and> forward example_env (example_model\<lparr>mode := FUTURE\<rparr>) (Some (Tensor [2] [1/2, 1])) False
       = Inr (Tensor [2] [1, 2])"
  by (simp add: example_defs eval_defs)

text \<open>
  Claim C6, amended. In \<open>FUTURE\<close> mode an input tensor that is not 1-dimensional makes
  \<open>forward\<close> raise an error. A history is not required: with no history set, \<open>forward\<close>
  on a 1-dimensional input is what \<open>forward\<close> in \<open>REGRESSION\<close> mode is on that input,
  the same prediction or the same error.
\<close>

theorem forward_future_requirements:
  assumes "mode s = FUTURE"
  shows "(length (shape x) \<noteq> 1 \<longrightarrow> (\<exists>e. forward env s (Some x) return_real = Inl e))
     \<and> (length (shape x) = 1 \<and> history_h_buf s = None \<longrightarrow>
          forward env s (Some x) return_real
            = forward env (s\<lparr>mode := REGRESSION\<rparr>) (Some x) return_real)"
proof (intro conjI impI)
  assume nd: "length (shape x) \<noteq> 1"
  show "\<exists>e. forward env s (Some x) return_real = Inl e"
  proof (cases "check_inside_valid_domain s x")
    case (Inl e)
    then show ?thesis by (simp add: forward_def)
  next
    case chk: (Inr u)
    show ?thesis
    proof (cases "current_state_field s")
      case (Inl e)
      with chk show ?thesis by (simp add: forward_def)
    next
      case (Inr p)
      with chk assms nd show ?thesis
        by (cases p) (simp add: forward_def mode_states_def)
    qed
  qed
next
  assume a: "length (shape x) = 1 \<and> history_h_buf s = None"
  have c: "check_inside_valid_domain (s\<lparr>mode := REGRESSION\<rparr>) x = check_inside_valid_domain s x"
    by (simp add: check_inside_valid_domain_def valid_domain_def)
  have p: "predict_normalized_magnetization (s\<lparr>mode := REGRESSION\<rparr>) st nh
           = predict_normalized_magnetization s st nh" for st nh
    by (simp add: predict_normalized_magnetization_def Let_def split: sum.splits)
  from a have f: "current_state_field s = Inr (None, None)"
      "current_state_field (s\<lparr>mode := REGRESSION\<rparr>) = Inr (None, None)"
    by (simp_all add: current_state_field_def)
  from a assms have ms: "mode_states env s (Some x) None None
      = mode_states env (s\<lparr>mode := REGRESSION\<rparr>) (Some x) None None"
    by (simp add: mode_states_def)
  show "forward env s (Some x) return_real
      = forward env (s\<lparr>mode := REGRESSION\<rparr>) (Some x) return_real"
    by (simp add: forward_def c p f ms split: sum.splits prod.splits)
qed

theorem forward_future_requirements_witness:
  "(\<exists>e. forward example_env (example_model\<lparr>mode := FUTURE\<rparr>) (Some (Tensor [1, 2] [1/2, 1])) False = Inl e)
   \<and> forward example_env (example_model\<lparr>mode := FUTURE\<rparr>) (Some (Tensor [2] [1/2, 1])) False
       = forward example_env (example_model\<lparr>mode := FUTURE, mode := REGRESSION\<rparr>)
           (Some (Tensor [2] [1/2, 1])) False"
  using forward_future_requirements
      [of "example_model\<lparr>mode := FUTURE\<rparr>" "Tensor [1, 2] [1/2, 1]" example_env False]
    forward_future_requirements
      [of "example_model\<lparr>mode := FUTURE\<rparr>" "Tensor [2] [1/2, 1]" example_env False]
  by (simp add: example_model_def)


subsection \<open>The magnetization\<close>

text \<open>
  Claim C2. In every mode, when \<open>forward\<close> returns the normalized magnetization, it is
  the value of \<open>_predict_normalized_magnetization\<close> on the states and the normalized
  fields of the mode, and its element \<open>i\<close> is
  \<open>scale * (\<Sum>j density_j * state_ij / \<Sum>j density_j) + offset + slope * h_i\<close>. The last
  dimension of the states is the number of mesh points, \<open>i\<close> counts the rows of the states
  in row-major order, and the total density is not zero. With \<open>return_real\<close> the result
  is that magnetization, untransformed.
\<close>

theorem forward_magnetization:
  assumes r: "forward env s x False = Inr r"
      and csf: "current_state_field s = Inr (cs, cf)"
      and ms: "mode_states env s x cs cf = Inr (st, nh)"
      and sh: "shape st = sh @ [length (hysterion_density s)]"
      and wf: "wf_tensor st" "wf_tensor nh"
      and nz: "sum_list (hysterion_density s) \<noteq> 0"
  shows "predict_normalized_magnetization s st nh = Inr r
     \<and> length (data r) = prod_list sh
     \<and> (\<forall>i<prod_list sh. data r ! i = spec_magnetization s st nh i)
     \<and> forward env s x True = Inr (untransform_m (transformer s) nh r)"
proof -
  let ?chk = "case x of Some xt \<Rightarrow> check_inside_valid_domain s xt
              | None \<Rightarrow> if mode s \<noteq> CURRENT
                        then Inl (HysteresisError msg_must_specify_field) else Inr ()"
  have chk: "?chk = Inr ()"
  proof (cases ?chk)
    case (Inl e)
    then have "forward env s x False = Inl e" by (simp add: forward_def)
    with r show ?thesis by simp
  next
    case (Inr u)
    then show ?thesis by simp
  qed
  have p: "predict_normalized_magnetization s st nh = Inr r"
  proof (cases "predict_normalized_magnetization s st nh")
    case (Inl e)
    with chk csf ms have "forward env s x False = Inl e" by (simp add: forward_def)
    with r show ?thesis by simp
  next
    case (Inr m)
    with chk csf ms have "forward env s x False = Inr m" by (simp add: forward_def)
    with r Inr show ?thesis by simp
  qed
  from chk csf ms p have t: "forward env s x True = Inr (untransform_m (transformer s) nh r)"
    by (simp add: forward_def untransform_def)
  from predict_value[OF sh wf p] p t show ?thesis by simp
qed

theorem forward_magnetization_witness:
  "forward example_env fitted_model (Some (Tensor [2] [0, 1])) False = Inr (Tensor [2] [0, 2])
   \<and> data (Tensor [2] [0, 2]) ! 0
        = spec_magnetization fitted_model (Tensor [2, 2] [0, 0, 1, 1]) (Tensor [2] [0, 1]) 0
   \<and> data (Tensor [2] [0, 2]) ! 1
        = spec_magnetization fitted_model (Tensor [2, 2] [0, 0, 1, 1]) (Tensor [2] [0, 1]) 1
   \<and> forward example_env fitted_model (Some (Tensor [2] [0, 1])) True = Inr (Tensor [2] [0, 2])"
proof -
  have f: "forward example_env fitted_model (Some (Tensor [2] [0, 1])) False = Inr (Tensor [2] [0, 2])"
    by (simp add: fitted_model_eq example_defs eval_defs eval_nat_numeral)
  have c: "current_state_field fitted_model = Inr (Some (Tensor [2] [1, 1]), Some (Tensor [] [1]))"
    by (simp add: fitted_model_eq example_model_def current_state_field_def index_last_def)
  have m: "mode_states example_env fitted_model (Some (Tensor [2] [0, 1]))
             (Some (Tensor [2] [1, 1])) (Some (Tensor [] [1]))
           = Inr (Tensor [2, 2] [0, 0, 1, 1], Tensor [2] [0, 1])"
    by (simp add: fitted_model_eq example_defs eval_defs eval_nat_numeral)
  have h: "shape (Tensor [2, 2] [0, 0, 1, 1]) = [2] @ [length (hysterion_density fitted_model)]"
      "wf_tensor (Tensor [2, 2] [0, 0, 1, 1])" "wf_tensor (Tensor [2] [0, 1])"
      "sum_list (hysterion_density fitted_model) \<noteq> 0"
    by (simp_all add: fitted_model_eq example_model_def wf_tensor_def)
  note t = forward_magnetization[OF f c m h]
  from t have v: "\<forall>i<prod_list [2]. data (Tensor [2] [0, 2]) ! i
      = spec_magnetization fitted_model (Tensor [2, 2] [0, 0, 1, 1]) (Tensor [2] [0, 1]) i"
    by blast
  from t have r: "forward example_env fitted_model (Some (Tensor [2] [0, 1])) True
      = Inr (untransform_m (transformer fitted_model) (Tensor [2] [0, 1]) (Tensor [2] [0, 2]))"
    by blast
  have "(0::nat) < prod_list [2]" "(1::nat) < prod_list [2]" by simp_all
  with v have "data (Tensor [2] [0, 2]) ! 0
        = spec_magnetization fitted_model (Tensor [2, 2] [0, 0, 1, 1]) (Tensor [2] [0, 1]) 0"
      "data (Tensor [2] [0, 2]) ! 1
        = spec_magnetization fitted_model (Tensor [2, 2] [0, 0, 1, 1]) (Tensor [2] [0, 1]) 1"
    by blast+
  with f r show ?thesis
    by (simp add: fitted_model_eq example_model_def unit_transform_def)
qed


subsection \<open>\<open>FITTING\<close> mode\<close>

text \<open>
  Claim C1, as stated, fails in both halves. After \<open>set_history([0, 1], [0.1, 0.9])\<close> and
  \<open>apply_field([0.5])\<close> the stored fields are \<open>[0, 1, 0.5]\<close> and the stored magnetization
  has two values: \<open>forward\<close> on the stored fields raises "history datasets must match
  shape for fitting" and returns no prediction. And on the model with the history
  \<open>[0, 1]\<close> the input \<open>[2, 3]\<close>, which is not the history, fails the domain check, which
  comes first: the error is the domain error, not a mode-consistency error.
\<close>

theorem forward_fitting_counterexample:
  "history_h_property extended_model = Some (Tensor [3] [0, 1, 1/2])
   \<and> history_m_buf extended_model = Some (Tensor [2] [1/10, 9/10])
   \<and> forward example_env extended_model (Some (Tensor [3] [0, 1, 1/2])) False
       = Inl (HysteresisError msg_history_shape)
   \<and> history_h_property fitted_model = Some (Tensor [2] [0, 1])
   \<and> forward example_env fitted_model (Some (Tensor [2] [2, 3])) False
       = Inl (HysteresisError msg_outside_domain)
   \<and> \<not> is_mode_consistency_error (HysteresisError msg_outside_domain)"
proof -
  have a: "history_h_property extended_model = Some (Tensor [3] [0, 1, 1/2])"
      "history_m_buf extended_model = Some (Tensor [2] [1/10, 9/10])"
      "history_h_property fitted_model = Some (Tensor [2] [0, 1])"
    by (simp_all add: extended_model_eq fitted_model_eq history_h_property_def untransform_def
          example_model_def unit_transform_def)
  have d: "check_inside_valid_domain extended_model (Tensor [3] [0, 1, 1/2]) = Inr ()"
    by (simp add: check_inside_valid_domain_def valid_domain_def extended_model_eq
          example_model_def unit_transform_def)
  have c: "current_state_field extended_model = Inr (Some (Tensor [2] [1, 0]), Some (Tensor [] [1/2]))"
    by (simp add: current_state_field_def index_last_def extended_model_eq example_model_def)
  have m: "mode_states example_env extended_model (Some (Tensor [3] [0, 1, 1/2]))
             (Some (Tensor [2] [1, 0])) (Some (Tensor [] [1/2]))
           = Inl (HysteresisError msg_history_shape)"
    by (simp add: mode_states_def extended_model_eq example_model_def)
  have b: "forward example_env extended_model (Some (Tensor [3] [0, 1, 1/2])) False
       = Inl (HysteresisError msg_history_shape)"
    by (simp add: forward_def d c m)
  have e: "forward example_env fitted_model (Some (Tensor [2] [2, 3])) False
       = Inl (HysteresisError msg_outside_domain)"
    by (simp add: forward_def check_inside_valid_domain_def valid_domain_def fitted_model_eq
          example_model_def unit_transform_def)
  have f: "\<not> is_mode_consistency_error (HysteresisError msg_outside_domain)"
    by (simp add: is_mode_consistency_error_def msg_defs)
  from a b e f show ?thesis by simp
qed

text \<open>
  Claim C1, amended. Take a model in \<open>FITTING\<close> mode whose stored field history,
  1-dimensional with \<open>n > 0\<close> values, stored magnetization history and cached state
  matrix agree in their length \<open>n\<close>, and an input \<open>x\<close> of \<open>n\<close> values that passes the domain
  check. If some value of \<open>x\<close> is not within tolerance of the stored untransformed
  history (\<open>|x - h| \<le> 1e-8 + 1e-5 * |h|\<close>), \<open>forward\<close> raises the mode-consistency error
  "must do regression on history fields if in FITTING mode"; if all are, it returns the
  prediction computed from the cached state matrix and the cached normalized history.
\<close>

theorem forward_fitting_consistency:
  assumes md: "mode s = FITTING"
      and hh: "history_h_buf s = Some hh" "shape hh = [n]" "0 < n"
      and hm: "history_m_buf s = Some hm" "shape hm = [n]"
      and st: "states_buf s = Some st" "shape st = [n, k]"
      and u: "shape (untransform_h (transformer s) hh) = [n]"
             "length (data (untransform_h (transformer s) hh)) = n"
      and x: "shape x = [n]" "length (data x) = n"
      and dom: "check_inside_valid_domain s x = Inr ()"
  shows "(\<not> list_all2 (\<lambda>a b. \<bar>a - b\<bar> \<le> 1 / 100000000 + 1 / 100000 * \<bar>b\<bar>)
              (data x) (data (untransform_h (transformer s) hh)) \<longrightarrow>
            forward env s (Some x) return_real = Inl (HysteresisError msg_not_history_fields)
            \<and> is_mode_consistency_error (HysteresisError msg_not_history_fields))
       \<and> (list_all2 (\<lambda>a b. \<bar>a - b\<bar> \<le> 1 / 100000000 + 1 / 100000 * \<bar>b\<bar>)
              (data x) (data (untransform_h (transformer s) hh)) \<longrightarrow>
            forward env s (Some x) False = predict_normalized_magnetization s st hh)"
proof -
  let ?close = "list_all2 (\<lambda>a b. \<bar>a - b\<bar> \<le> 1 / 100000000 + 1 / 100000 * \<bar>b\<bar>)
              (data x) (data (untransform_h (transformer s) hh))"
  have ac: "allclose x (untransform_h (transformer s) hh) = Inr ?close"
    using x u by (intro allclose_same_length)
  from hh st obtain cs cf where csf: "current_state_field s = Inr (Some cs, Some cf)"
    by (auto simp: current_state_field_def index_last_def)
  have ms: "mode_states env s (Some x) (Some cs) (Some cf)
      = (if ?close then Inr (st, hh) else Inl (HysteresisError msg_not_history_fields))"
    using md hh hm st ac by (simp add: mode_states_def untransform_def)
  have f1: "forward env s (Some x) return_real = Inl (HysteresisError msg_not_history_fields)"
    if "\<not> ?close"
    using that dom csf ms by (simp add: forward_def)
  have f2: "forward env s (Some x) False = predict_normalized_magnetization s st hh" if "?close"
    using that dom csf ms by (simp add: forward_def split: sum.splits)
  from f1 f2 show ?thesis by (simp add: is_mode_consistency_error_def)
qed

theorem forward_fitting_consistency_witness:
  "forward example_env fitted_model (Some (Tensor [2] [0, 1/2])) False
     = Inl (HysteresisError msg_not_history_fields)
   \<and> forward example_env fitted_model (Some (Tensor [2] [0, 1])) False
     = predict_normalized_magnetization fitted_model (Tensor [2, 2] [0, 0, 1, 1]) (Tensor [2] [0, 1])"
proof -
  have md: "mode fitted_model = FITTING"
    by (simp add: fitted_model_eq example_model_def)
  have hh: "history_h_buf fitted_model = Some (Tensor [2] [0, 1])"
      "shape (Tensor [2] [0, 1]) = [2]" "0 < (2::nat)"
    by (simp_all add: fitted_model_eq example_model_def)
  have hm: "history_m_buf fitted_model = Some (Tensor [2] [1/10, 9/10])"
      "shape (Tensor [2] [1/10, 9/10]) = [2]"
    by (simp_all add: fitted_model_eq example_model_def)
  have st: "states_buf fitted_model = Some (Tensor [2, 2] [0, 0, 1, 1])"
      "shape (Tensor [2, 2] [0, 0, 1, 1]) = [2, 2]"
    by (simp_all add: fitted_model_eq example_model_def)
  have ut: "untransform_h (transformer fitted_model) (Tensor [2] [0, 1]) = Tensor [2] [0, 1]"
    by (simp add: fitted_model_eq example_model_def unit_transform_def)
  have u: "shape (untransform_h (transformer fitted_model) (Tensor [2] [0, 1])) = [2]"
      "length (data (untransform_h (transformer fitted_model) (Tensor [2] [0, 1]))) = 2"
    by (simp_all add: ut)
  have x1: "shape (Tensor [2] [0, 1/2]) = [2]" "length (data (Tensor [2] [0, 1/2])) = 2"
    and x2: "shape (Tensor [2] [0, 1]) = [2]" "length (data (Tensor [2] [0, 1])) = 2"
    by simp_all
  have d1: "check_inside_valid_domain fitted_model (Tensor [2] [0, 1/2]) = Inr ()"
    and d2: "check_inside_valid_domain fitted_model (Tensor [2] [0, 1]) = Inr ()"
    by (simp_all add: check_inside_valid_domain_def valid_domain_def fitted_model_eq
          example_model_def unit_transform_def)
  have far: "\<not> list_all2 (\<lambda>a b. \<bar>a - b\<bar> \<le> 1 / 100000000 + 1 / 100000 * \<bar>b\<bar>)
      (data (Tensor [2] [0, 1/2])) (data (untransform_h (transformer fitted_model) (Tensor [2] [0, 1])))"
    and near: "list_all2 (\<lambda>a b. \<bar>a - b\<bar> \<le> 1 / 100000000 + 1 / 100000 * \<bar>b\<bar>)
      (data (Tensor [2] [0, 1])) (data (untransform_h (transformer fitted_model) (Tensor [2] [0, 1])))"
    by (simp_all add: ut)
  from forward_fitting_consistency[OF md hh hm st u x1 d1, of example_env False] far
    forward_fitting_consistency[OF md hh hm st u x2 d2, of example_env False] near
  show ?thesis by blast
qed


subsection \<open>The cache of the states\<close>

text \<open>
  Claim C4, with the state function of the specification (any relay update, any
  saturation start). After \<open>set_history\<close> or \<open>apply_field\<close> has returned, the cached state
  matrix is what the state function gives for the complete stored history, started from
  saturation and not from the previous cache; the history is 1-dimensional and the matrix
  has one row per stored field value and one column per mesh point. After \<open>set_history\<close>
  the stored history is the whole argument \<open>h\<close>, transformed by the transform the model
  then holds; after \<open>apply_field\<close> it is the transformed input, appended to the previous
  history when there was one. In particular, on a model without history, \<open>apply_field\<close> with an input
  that passes the domain check and that the transform maps to a single value returns
  with a history of one element and a state matrix of shape \<open>(1, |mesh|)\<close>.
\<close>

theorem states_recomputed_from_history:
  assumes gs: "get_states env = get_states_spec relay sat"
  shows "(fst (set_history env s h m) = None \<longrightarrow>
            states_cached env (snd (set_history env s h m))
            \<and> history_h_buf (snd (set_history env s h m))
                = Some (transform_h (transformer (snd (set_history env s h m))) h))
     \<and> (fst (apply_field env s x) = None \<longrightarrow>
            states_cached env (snd (apply_field env s x))
            \<and> (case history_h_buf s of
                  None \<Rightarrow> history_h_buf (snd (apply_field env s x))
                            = Some (transform_h (transformer s) (atleast_1d x))
                | Some hh \<Rightarrow> map_option Inr (history_h_buf (snd (apply_field env s x)))
                            = Some (cat hh (transform_h (transformer s) (atleast_1d x)))))
     \<and> (history_h_buf s = None
          \<and> check_inside_valid_domain s (atleast_1d x) = Inr ()
          \<and> shape (transform_h (transformer s) (atleast_1d x)) = [1]
          \<and> length (data (transform_h (transformer s) (atleast_1d x))) = 1 \<longrightarrow>
            fst (apply_field env s x) = None
            \<and> (\<exists>v st. history_h_buf (snd (apply_field env s x)) = Some (Tensor [1] [v])
                  \<and> states_buf (snd (apply_field env s x)) = Some st
                  \<and> shape st = [1, length (mesh_points s)]))"
proof (intro conjI impI)
  assume ok: "fst (set_history env s h m) = None"
  from set_history_cached[OF gs ok]
  show "states_cached env (snd (set_history env s h m))"
    and "history_h_buf (snd (set_history env s h m))
          = Some (transform_h (transformer (snd (set_history env s h m))) h)"
    by simp_all
next
  assume ok: "fst (apply_field env s x) = None"
  with gs show "states_cached env (snd (apply_field env s x))"
    by (rule apply_field_cached)
  from apply_field_success[OF ok] obtain t
    where u: "update_h_history_buffer env s t = (None, snd (apply_field env s x))"
      and t: "case history_h_buf s of
                 None \<Rightarrow> t = transform_h (transformer s) (atleast_1d x)
               | Some hh \<Rightarrow> cat hh (transform_h (transformer s) (atleast_1d x)) = Inr t"
    by blast
  from update_buffer_cached[OF gs u] have "history_h_buf (snd (apply_field env s x)) = Some t"
    by simp
  with t show "case history_h_buf s of
        None \<Rightarrow> history_h_buf (snd (apply_field env s x))
                  = Some (transform_h (transformer s) (atleast_1d x))
      | Some hh \<Rightarrow> map_option Inr (history_h_buf (snd (apply_field env s x)))
                  = Some (cat hh (transform_h (transformer s) (atleast_1d x)))"
    by (simp split: option.splits)
next
  let ?t = "transform_h (transformer s) (atleast_1d x)"
  assume a: "history_h_buf s = None
          \<and> check_inside_valid_domain s (atleast_1d x) = Inr ()
          \<and> shape ?t = [1] \<and> length (data ?t) = 1"
  then obtain v where v: "data ?t = [v]"
    by (cases "data ?t") auto
  with a have tv: "?t = Tensor [1] [v]" by (cases ?t) simp
  from a have af: "apply_field env s x = update_h_history_buffer env s ?t"
    by (simp add: apply_field_def Let_def transform_def)
  let ?st = "Tensor [1, length (mesh_points s)]
      (concat (replay (relay (temp s)) (mesh_points s)
                 (replicate (length (mesh_points s)) (fst sat)) (snd sat) [v]))"
  have g: "get_states env ?t (mesh_points s) None None (temp s) = Some ?st"
    by (simp add: gs tv get_states_spec_def)
  have up: "update_h_history_buffer env s ?t
      = (None, s\<lparr>history_h_buf := Some ?t, states_buf := Some ?st\<rparr>)"
    using g by (simp add: update_h_history_buffer_def Let_def)
  from af up tv show "fst (apply_field env s x) = None" by simp
  from af up tv show "\<exists>v st. history_h_buf (snd (apply_field env s x)) = Some (Tensor [1] [v])
      \<and> states_buf (snd (apply_field env s x)) = Some st
      \<and> shape st = [1, length (mesh_points s)]"
    by simp
qed

theorem states_recomputed_from_history_witness:
  "get_states example_env = get_states_spec hard_relay (0, 0)
   \<and> states_cached example_env
        (snd (set_history example_env (example_model\<lparr>mode := NEXT\<rparr>) (Tensor [2] [0, 1]) None))
   \<and> states_cached example_env (snd (apply_field example_env fitted_model (Tensor [1] [1/2])))
   \<and> history_h_buf (snd (apply_field example_env fitted_model (Tensor [1] [1/2])))
        = Some (Tensor [3] [0, 1, 1/2])
   \<and> fst (apply_field example_env example_model (Tensor [] [1/2])) = None
   \<and> (\<exists>v st. history_h_buf (snd (apply_field example_env example_model (Tensor [] [1/2])))
                = Some (Tensor [1] [v])
          \<and> states_buf (snd (apply_field example_env example_model (Tensor [] [1/2]))) = Some st
          \<and> shape st = [1, 2])"
proof -
  have gs: "get_states example_env = get_states_spec hard_relay (0, 0)"
    by (simp add: example_env_def)
  have ok1: "fst (set_history example_env (example_model\<lparr>mode := NEXT\<rparr>) (Tensor [2] [0, 1]) None) = None"
    by (simp add: set_history_without_m_example)
  have h: "history_h_buf fitted_model = Some (Tensor [2] [0, 1])"
      "transform_h (transformer fitted_model) (atleast_1d (Tensor [1] [1/2])) = Tensor [1] [1/2]"
      "cat (Tensor [2] [0, 1]) (Tensor [1] [1/2]) = Inr (Tensor [3] [0, 1, 1/2])"
    by (simp_all add: fitted_model_eq example_model_def unit_transform_def atleast_1d_def cat_def)
  have p: "history_h_buf example_model = None
      \<and> check_inside_valid_domain example_model (atleast_1d (Tensor [] [1/2])) = Inr ()
      \<and> shape (transform_h (transformer example_model) (atleast_1d (Tensor [] [1/2]))) = [1]
      \<and> length (data (transform_h (transformer example_model) (atleast_1d (Tensor [] [1/2])))) = 1"
    by (simp add: example_model_def unit_transform_def atleast_1d_def check_inside_valid_domain_def
          valid_domain_def)
  have m: "length (mesh_points example_model) = 2" by (simp add: example_model_def)
  from states_recomputed_from_history
         [OF gs, of "example_model\<lparr>mode := NEXT\<rparr>" "Tensor [2] [0, 1]" None "Tensor [1] [1/2]"]
       states_recomputed_from_history
         [OF gs, of fitted_model "Tensor [2] [0, 1]" None "Tensor [1] [1/2]"]
       ok1 apply_field_fitted_ok h
  have a: "states_cached example_env
        (snd (set_history example_env (example_model\<lparr>mode := NEXT\<rparr>) (Tensor [2] [0, 1]) None))
     \<and> states_cached example_env (snd (apply_field example_env fitted_model (Tensor [1] [1/2])))
     \<and> history_h_buf (snd (apply_field example_env fitted_model (Tensor [1] [1/2])))
        = Some (Tensor [3] [0, 1, 1/2])"
    by (auto simp: map_option_case split: option.splits)
  from states_recomputed_from_history
         [OF gs, of example_model "Tensor [2] [0, 1]" None "Tensor [] [1/2]"] p
  have b0: "fst (apply_field example_env example_model (Tensor [] [1/2])) = None
     \<and> (\<exists>v st. history_h_buf (snd (apply_field example_env example_model (Tensor [] [1/2])))
                = Some (Tensor [1] [v])
          \<and> states_buf (snd (apply_field example_env example_model (Tensor [] [1/2]))) = Some st
          \<and> shape st = [1, length (mesh_points example_model)])"
    by blast
  then have b: "fst (apply_field example_env example_model (Tensor [] [1/2])) = None
     \<and> (\<exists>v st. history_h_buf (snd (apply_field example_env example_model (Tensor [] [1/2])))
                = Some (Tensor [1] [v])
          \<and> states_buf (snd (apply_field example_env example_model (Tensor [] [1/2]))) = Some st
          \<and> shape st = [1, 2])"
    by (simp only: m)
  from gs a b show ?thesis by blast
qed


end
